theory Spec2Isabelle
  imports Main "HOL-Library.Sublist"
begin

section \<open>Text Parameter Scanner (txt\_manager.py)\<close>

text \<open>
  A text file is read line by line; the model takes the document as the list of lines the
  file iterator yields, each line still carrying its line terminator. Strings are lists of
  8-bit characters; the model covers ASCII text (a character outside ASCII is neither
  white space nor a letter with a case). The file is taken to open and read without an
  error of the operating system, and the messages the two functions log are left out.
\<close>

subsection \<open>The string methods of Python the code calls\<close>

text \<open>\<^verbatim>\<open>str.isspace\<close> on ASCII: tab, line feed, vertical tab, form feed, carriage return,
  the four separators 0x1C..0x1F and the space.\<close>

definition is_space :: "char \<Rightarrow> bool" where
  "is_space c = (c \<in> {CHR 0x09, CHR 0x0A, CHR 0x0B, CHR 0x0C, CHR 0x0D,
                       CHR 0x1C, CHR 0x1D, CHR 0x1E, CHR 0x1F, CHR 0x20})"

text \<open>\<^verbatim>\<open>s.strip()\<close>: leading and trailing white space removed.\<close>

definition strip :: "string \<Rightarrow> string" where
  "strip s = rev (dropWhile is_space (rev (dropWhile is_space s)))"

text \<open>\<^verbatim>\<open>needle in s\<close>: the needle occurs in \<open>s\<close> as a contiguous substring.\<close>

fun py_in :: "string \<Rightarrow> string \<Rightarrow> bool" where
  "py_in needle [] = (needle = [])"
| "py_in needle (c # cs) = (prefix needle (c # cs) \<or> py_in needle cs)"

text \<open>\<^verbatim>\<open>s.replace(old, new)\<close>: every non-overlapping occurrence of \<open>old\<close>, found from
  left to right, is replaced by \<open>new\<close>. An empty \<open>old\<close> matches before every character
  and at the end.\<close>

function replace_scan :: "string \<Rightarrow> string \<Rightarrow> string \<Rightarrow> string" where
  "replace_scan [] old new = []"
| "replace_scan (c # cs) old new =
     (if old \<noteq> [] \<and> prefix old (c # cs)
      then new @ replace_scan (drop (length old) (c # cs)) old new
      else c # replace_scan cs old new)"
  by pat_completeness auto
termination
  by (relation "measure (\<lambda>(s, old, new). length s)") (auto simp: neq_Nil_conv)

definition py_replace :: "string \<Rightarrow> string \<Rightarrow> string \<Rightarrow> string" where
  "py_replace s old new =
     (if old = [] then new @ concat (map (\<lambda>c. c # new) s) else replace_scan s old new)"

text \<open>\<^verbatim>\<open>s.split(':')[0]\<close>: the text before the first colon (all of \<open>s\<close> when it has none).\<close>

definition split_colon_0 :: "string \<Rightarrow> string" where
  "split_colon_0 s = takeWhile (\<lambda>c. c \<noteq> CHR '':'') s"

text \<open>\<^verbatim>\<open>re.sub(r'[\n\t\r]', '', s)\<close>\<close>

definition sub_nl_tab_cr :: "string \<Rightarrow> string" where
  "sub_nl_tab_cr s = filter (\<lambda>c. c \<noteq> CHR 0x0A \<and> c \<noteq> CHR 0x09 \<and> c \<noteq> CHR 0x0D) s"

subsection \<open>search\_param\_txt\<close>

record param_match =
  row_num :: int
  param_value :: string

text \<open>The loop \<^verbatim>\<open>for row_num, row_content in enumerate(my_file, 1)\<close>; the first argument is
  the number of the line at the head of the remaining lines.\<close>

fun search_loop :: "int \<Rightarrow> string list \<Rightarrow> string \<Rightarrow> param_match" where
  "search_loop n [] seached_param = \<lparr>row_num = - 1, param_value = []\<rparr>"
| "search_loop n (row_content # rest) seached_param =
     (if py_in seached_param row_content
      then \<lparr>row_num = n,
            param_value = py_replace (strip (py_replace row_content seached_param [])) '' '' ''_''\<rparr>
      else search_loop (n + 1) rest seached_param)"

definition search_param_txt :: "string list \<Rightarrow> string \<Rightarrow> param_match" where
  "search_param_txt doc seached_param = search_loop 1 doc seached_param"

subsection \<open>get\_params\_from\_txt\<close>

text \<open>A Python \<^verbatim>\<open>dict\<close> keeps its keys in insertion order: assigning to a key that is present
  overwrites the value in place, a new key goes to the end. \<^verbatim>\<open>dict(zip(keys, vals))\<close>
  assigns the pairs from left to right.\<close>

fun dict_set :: "'k \<Rightarrow> 'v \<Rightarrow> ('k \<times> 'v) list \<Rightarrow> ('k \<times> 'v) list" where
  "dict_set k v [] = [(k, v)]"
| "dict_set k v ((k', v') # d) = (if k = k' then (k, v) # d else (k', v') # dict_set k v d)"

definition dict_zip :: "'k list \<Rightarrow> 'v list \<Rightarrow> ('k \<times> 'v) list" where
  "dict_zip ks vs = fold (\<lambda>(k, v) d. dict_set k v d) (zip ks vs) []"

text \<open>What the function returns: \<^verbatim>\<open>None\<close> (the end of the function is reached, or an
  exception was caught and logged), the empty \<^verbatim>\<open>pd.DataFrame()\<close>, or the one-row frame
  \<^verbatim>\<open>pd.DataFrame(dynamic_dict, index=[0])\<close>, given by its columns and their values.\<close>

datatype params_result = PyNone | EmptyDataFrame | DataFrame "(string \<times> string) list"

text \<open>Lines 110 to 119: the key and the value the code takes from one line.\<close>

definition param_key :: "string \<Rightarrow> string" where
  "param_key line = strip (split_colon_0 (strip line))"

definition param_val :: "string \<Rightarrow> string" where
  "param_val line =
     strip (sub_nl_tab_cr (strip (py_replace line (split_colon_0 (strip line) @ '':'') [])))"

text \<open>\<^verbatim>\<open>for _ in range(row_number - 1): next(my_file)\<close>; \<open>None\<close> is the \<^verbatim>\<open>StopIteration\<close>
  that \<^verbatim>\<open>next\<close> raises at the end of the file.\<close>

fun skip_lines :: "nat \<Rightarrow> string list \<Rightarrow> string list option" where
  "skip_lines 0 ls = Some ls"
| "skip_lines (Suc n) [] = None"
| "skip_lines (Suc n) (l # ls) = skip_lines n ls"

text \<open>\<^verbatim>\<open>for line in my_file\<close> with the state \<open>skip_count\<close>, \<open>dict_keys\<close>, \<open>dict_vals\<close>. The
  result is \<open>None\<close> when the lines run out before the loop has returned.\<close>

fun params_loop ::
  "string list \<Rightarrow> int \<Rightarrow> int \<Rightarrow> string list \<Rightarrow> string list \<Rightarrow> (string \<times> string) list option"
where
  "params_loop [] skip_count skip_rows dict_keys dict_vals = None"
| "params_loop (line # rest) skip_count skip_rows dict_keys dict_vals =
     (if skip_count = skip_rows
      then (if strip line = [] then Some (dict_zip dict_keys dict_vals)
            else params_loop rest skip_count skip_rows
                   (dict_keys @ [param_key line]) (dict_vals @ [param_val line]))
      else params_loop rest (skip_count + 1) skip_rows dict_keys dict_vals)"

definition start_row :: "string list \<Rightarrow> string \<Rightarrow> int \<Rightarrow> int" where
  "start_row doc header param_line =
     (if param_line = 0 then row_num (search_param_txt doc header) else param_line)"

definition get_params_from_txt :: "string list \<Rightarrow> string \<Rightarrow> int \<Rightarrow> int \<Rightarrow> params_result" where
  "get_params_from_txt doc header param_line skip_rows =
     (let row_number = start_row doc header param_line in
      if row_number > 0 \<and> skip_rows \<ge> 0
      then (case skip_lines (nat (row_number - 1)) doc of
              None \<Rightarrow> PyNone
            | Some my_file \<Rightarrow>
                (case params_loop my_file 0 skip_rows [] [] of
                   None \<Rightarrow> PyNone
                 | Some dynamic_dict \<Rightarrow> DataFrame dynamic_dict))
      else EmptyDataFrame)"

text \<open>The lines a call reads as parameters: those from line \<open>row_number + skip_rows\<close> on (the
  skipped lines are counted from the start line itself), up to the first blank line.\<close>

definition block_lines :: "string list \<Rightarrow> int \<Rightarrow> int \<Rightarrow> string list" where
  "block_lines doc row_number skip_rows =
     takeWhile (\<lambda>l. strip l \<noteq> []) (drop (nat (row_number - 1) + nat skip_rows) doc)"


section \<open>Schema Reconciler and Incremental Upsert Engine (db\_manager.py)\<close>

text \<open>
  The two functions of \<^verbatim>\<open>db_manager.py\<close> drive a relational store through SQLAlchemy,
  pymssql and pandas. The model keeps the store as explicit state: its tables, a journal
  of the calls made to it, and the messages logged. Each library call is a function on that
  state that either raises or returns. A cell is \<open>None\<close> for a missing value (\<^verbatim>\<open>NaN\<close>,
  \<^verbatim>\<open>None\<close>, SQL \<^verbatim>\<open>NULL\<close>), and two cells match in a merge when they are equal. The store
  compares column names without regard to case, as the code's comments say of MSSQL.
  What the code does not fix is left to the store and is part of its state: the class of
  the exception a rejected call raises, how many rows of a rejected append stay in the
  table, and how the store answers a statement into which the text of a key value has been
  pasted.
\<close>

subsection \<open>Data frames\<close>

datatype dtype = Int64 | Object | Datetime64 | Float64 | OtherDtype

record 'v dataframe =
  columns :: "(string \<times> dtype) list"
  rows :: "'v option list list"

text \<open>\<^verbatim>\<open>df.empty\<close>: an axis of length 0.\<close>

definition df_empty :: "'v dataframe \<Rightarrow> bool" where
  "df_empty df = (columns df = [] \<or> rows df = [])"

definition column_names :: "'v dataframe \<Rightarrow> string list" where
  "column_names df = map fst (columns df)"

text \<open>The cell of a row under a column name (\<open>None\<close> when the name is not a column).\<close>

definition row_cell :: "string list \<Rightarrow> 'v option list \<Rightarrow> string \<Rightarrow> 'v option" where
  "row_cell names r c = (case map_of (zip names r) c of None \<Rightarrow> None | Some x \<Rightarrow> x)"

text \<open>\<^verbatim>\<open>str.upper\<close> on ASCII.\<close>

definition chr_upper :: "char \<Rightarrow> char" where
  "chr_upper c =
     (if 97 \<le> (of_char c :: nat) \<and> (of_char c :: nat) \<le> 122
      then char_of ((of_char c :: nat) - 32) else c)"

definition upper :: "string \<Rightarrow> string" where
  "upper s = map chr_upper s"

datatype exn = SQLAlchemyError | DriverError | KeyError

text \<open>\<^verbatim>\<open>pd.merge(left, right, on=on_col, how='left', indicator=True)\<close> where \<open>right\<close> is one
  named column: every left row, in order, once for each right value its key matches and
  marked \<open>Both\<close>, or once and marked \<open>Left_only\<close> when none matches. The merge raises
  \<^verbatim>\<open>KeyError\<close> when the left frame has no column \<open>on_col\<close>.\<close>

datatype merge_ind = Left_only | Both

definition pd_merge_left ::
  "'v dataframe \<Rightarrow> 'v option list \<Rightarrow> string \<Rightarrow> exn + ('v option list \<times> merge_ind) list" where
  "pd_merge_left left right on_col =
     (if on_col \<in> set (column_names left)
      then Inr (concat (map (\<lambda>r.
                  let n = count_list right (row_cell (column_names left) r on_col)
                  in if n = 0 then [(r, Left_only)] else replicate n (r, Both))
                (rows left)))
      else Inl KeyError)"

text \<open>\<^verbatim>\<open>merge_df.loc[merge_df._merge=='left_only', merge_df.columns!='_merge']\<close> followed by
  \<^verbatim>\<open>merge_df[data_to_insert.columns]\<close>: the rows marked \<open>Left_only\<close>, under the columns of the
  batch.\<close>

definition left_only_records ::
  "'v dataframe \<Rightarrow> ('v option list \<times> merge_ind) list \<Rightarrow> 'v dataframe" where
  "left_only_records data_to_insert merge_df =
     data_to_insert\<lparr>rows := map fst (filter (\<lambda>(r, m). m = Left_only) merge_df)\<rparr>"

subsection \<open>The store\<close>

datatype sql_type =
    SaInteger | SaString | SaDateTime | SaFloat
  | SMALLINT | VARCHAR_512 | DATETIME | FLOAT
  | PandasType dtype

record sa_column =
  cname :: string
  ctype :: sql_type
  primary_key :: bool

record 'v table =
  tcolumns :: "sa_column list"
  trows :: "'v option list list"

datatype 'v call =
    HasTable string
  | CreateAll string "sa_column list"
  | Reflect string
  | AlterAdd string string sql_type
  | ReadSql string string "(string \<times> 'v) option"
  | ToSql string "string list" nat

datatype log_entry =
    Info_created_with_pk string string
  | Info_created_without_pk string
  | Error_no_pk_column string
  | Warning_new_columns nat string
  | Info_column_created string sql_type string
  | Warning_no_data string
  | Error_sqlalchemy_create_alter string
  | Error_create_alter string
  | Error_sqlalchemy_insert string
  | Error_insert string

text \<open>
  \<^item> \<open>down\<close>: the store cannot be reached (connectivity, permission); every call raises.
  \<^item> \<open>raises\<close>: the exception with which SQLAlchemy and pandas raise when the store rejects
    a call; the \<^verbatim>\<open>except\<close> clause that handles it depends on its class.
  \<^item> \<open>kept\<close>: when the primary key rejects a row of an append, how many of the rows sent
    before it stay in the table (none when the append is rolled back as one transaction,
    all of them when each row is committed as it is sent).
  \<^item> \<open>select_where k v t\<close>: the answer of the store to the clause \<^verbatim>\<open>WHERE [k] = v\<close> on the
    table \<open>t\<close>, where line 276 pastes the text of the key value \<open>v\<close> into the statement as
    it is, without quotes: the rows selected, or \<open>None\<close> when the store rejects the
    statement. How the pasted text reads as T-SQL (a number, a name, nothing at all) is the
    store's.
\<close>

record 'v mssql =
  tables :: "(string \<times> 'v table) list"
  down :: bool
  raises :: exn
  kept :: nat
  select_where :: "string \<Rightarrow> 'v \<Rightarrow> 'v table \<Rightarrow> 'v option list list option"
  journal :: "'v call list"
  logged :: "log_entry list"

definition called :: "'v call \<Rightarrow> 'v mssql \<Rightarrow> 'v mssql" where
  "called c st = st\<lparr>journal := journal st @ [c]\<rparr>"

definition logger :: "log_entry \<Rightarrow> 'v mssql \<Rightarrow> 'v mssql" where
  "logger e st = st\<lparr>logged := logged st @ [e]\<rparr>"

definition table_names :: "'v table \<Rightarrow> string list" where
  "table_names t = map cname (tcolumns t)"

text \<open>The column of a table a statement names, found without regard to case.\<close>

definition find_column :: "'v table \<Rightarrow> string \<Rightarrow> string option" where
  "find_column t c = find (\<lambda>n. upper n = upper c) (table_names t)"

text \<open>\<^verbatim>\<open>insp.has_table(table_name, schema=...)\<close>\<close>

definition has_table :: "string \<Rightarrow> 'v mssql \<Rightarrow> (exn + bool) \<times> 'v mssql" where
  "has_table table_name st =
     (let st' = called (HasTable table_name) st in
      if down st then (Inl (raises st), st')
      else (Inr (map_of (tables st) table_name \<noteq> None), st'))"

text \<open>\<^verbatim>\<open>sa.Table(table_name, metadata, *mssql_cols)\<close> and \<^verbatim>\<open>metadata.create_all(engine)\<close>:
  the table is created, without rows, unless it is there already; column names that are
  equal up to case are rejected.\<close>

definition create_all :: "string \<Rightarrow> sa_column list \<Rightarrow> 'v mssql \<Rightarrow> (exn + unit) \<times> 'v mssql" where
  "create_all table_name mssql_cols st =
     (let st' = called (CreateAll table_name mssql_cols) st in
      if down st \<or> \<not> distinct (map (upper \<circ> cname) mssql_cols) then (Inl (raises st), st')
      else if map_of (tables st) table_name \<noteq> None then (Inr (), st')
      else (Inr (), st'\<lparr>tables := dict_set table_name \<lparr>tcolumns = mssql_cols, trows = []\<rparr> (tables st)\<rparr>))"

text \<open>\<^verbatim>\<open>metadata.reflect(bind=engine)\<close>, \<^verbatim>\<open>metadata.tables[table_name]\<close> and
  \<^verbatim>\<open>table_exs.columns.keys()\<close>: the column names of the table as stored.\<close>

definition reflect_columns :: "string \<Rightarrow> 'v mssql \<Rightarrow> (exn + string list) \<times> 'v mssql" where
  "reflect_columns table_name st =
     (let st' = called (Reflect table_name) st in
      if down st then (Inl (raises st), st')
      else (case map_of (tables st) table_name of
              None \<Rightarrow> (Inl KeyError, st')
            | Some t \<Rightarrow> (Inr (table_names t), st')))"

text \<open>\<^verbatim>\<open>cursor.execute("ALTER TABLE ... ADD [col] type;")\<close> and \<^verbatim>\<open>conn.commit()\<close> on the pymssql
  connection: the column is added after the existing ones and is \<^verbatim>\<open>NULL\<close> in every row;
  a name the table has already (up to case) is rejected.\<close>

definition alter_add :: "string \<Rightarrow> string \<Rightarrow> sql_type \<Rightarrow> 'v mssql \<Rightarrow> (exn + unit) \<times> 'v mssql" where
  "alter_add table_name col new_col_type st =
     (let st' = called (AlterAdd table_name col new_col_type) st in
      if down st then (Inl DriverError, st')
      else (case map_of (tables st) table_name of
              None \<Rightarrow> (Inl DriverError, st')
            | Some t \<Rightarrow>
                if find_column t col \<noteq> None then (Inl DriverError, st')
                else (Inr (), st'\<lparr>tables := dict_set table_name
                        \<lparr>tcolumns = tcolumns t @ [\<lparr>cname = col, ctype = new_col_type, primary_key = False\<rparr>],
                         trows = map (\<lambda>r. r @ [None]) (trows t)\<rparr> (tables st)\<rparr>)))"

text \<open>\<^verbatim>\<open>pd.read_sql("SELECT [col] FROM table", con=engine)\<close>, with an optional
  \<^verbatim>\<open>WHERE [k] = v\<close>: a frame of one column, named as the table stores it, with the cells
  of the selected rows. Without the clause every row is selected; with it the rows are
  those the store selects for the pasted text, and the call raises when the store rejects
  the statement.\<close>

definition read_sql ::
  "string \<Rightarrow> string \<Rightarrow> (string \<times> 'v) option \<Rightarrow> 'v mssql \<Rightarrow> (exn + string \<times> 'v option list) \<times> 'v mssql"
where
  "read_sql table_name col wh st =
     (let st' = called (ReadSql table_name col wh) st in
      if down st then (Inl (raises st), st')
      else (case map_of (tables st) table_name of
              None \<Rightarrow> (Inl (raises st), st')
            | Some t \<Rightarrow>
               (case find_column t col of
                  None \<Rightarrow> (Inl (raises st), st')
                | Some stored \<Rightarrow>
                   (case wh of
                      None \<Rightarrow> (Inr (stored, map (\<lambda>r. row_cell (table_names t) r stored) (trows t)), st')
                    | Some (k, v) \<Rightarrow>
                       (case find_column t k of
                          None \<Rightarrow> (Inl (raises st), st')
                        | Some kstored \<Rightarrow>
                           (case select_where st kstored v t of
                              None \<Rightarrow> (Inl (raises st), st')
                            | Some selected \<Rightarrow>
                                (Inr (stored, map (\<lambda>r. row_cell (table_names t) r stored) selected),
                                 st')))))))"

text \<open>\<^verbatim>\<open>frame[name]\<close> on the frame \<^verbatim>\<open>read_sql\<close> returns: pandas looks the name up exactly.\<close>

definition frame_getitem :: "string \<times> 'v option list \<Rightarrow> string \<Rightarrow> exn + 'v option list" where
  "frame_getitem frame name = (if fst frame = name then Inr (snd frame) else Inl KeyError)"

text \<open>The primary key of a table: the key cells of its rows must be present and pairwise
  different.\<close>

definition pk_names :: "'v table \<Rightarrow> string list" where
  "pk_names t = map cname (filter primary_key (tcolumns t))"

definition pk_ok :: "'v table \<Rightarrow> 'v option list list \<Rightarrow> bool" where
  "pk_ok t rs =
     (pk_names t = [] \<or>
      (distinct (map (\<lambda>r. map (row_cell (table_names t) r) (pk_names t)) rs) \<and>
       list_all (\<lambda>r. None \<notin> set (map (row_cell (table_names t) r) (pk_names t))) rs))"

text \<open>A row of a frame as a row of the table: under each column of the table the cell of the
  frame's column of that name (up to case), \<^verbatim>\<open>NULL\<close> where the frame has none.\<close>

definition to_table_row :: "string list \<Rightarrow> string list \<Rightarrow> 'v option list \<Rightarrow> 'v option list" where
  "to_table_row frame_names tnames r = map (\<lambda>c. row_cell (map upper frame_names) r (upper c)) tnames"

text \<open>The rows of an append the primary key accepts one after the other: the longest run
  of rows from the first on that can be added to the rows \<open>old\<close> of the table.\<close>

fun accepted_prefix :: "'v table \<Rightarrow> 'v option list list \<Rightarrow> 'v option list list \<Rightarrow> 'v option list list" where
  "accepted_prefix t old [] = []"
| "accepted_prefix t old (r # rs) =
     (if pk_ok t (old @ [r]) then r # accepted_prefix t (old @ [r]) rs else [])"

text \<open>\<^verbatim>\<open>new_records.to_sql(name=table_name, con=engine, if_exists='append', index=False)\<close>:
  the rows are appended and their number is returned; pandas creates the table from the
  frame when it is absent. The call raises when two columns of the frame have the same name
  up to case, or when the table lacks a column of the frame, and then appends nothing. It
  raises too when the primary key rejects a row; of the rows sent before that row the
  store keeps the first \<open>kept st\<close>.\<close>

definition to_sql :: "string \<Rightarrow> 'v dataframe \<Rightarrow> 'v mssql \<Rightarrow> (exn + int) \<times> 'v mssql" where
  "to_sql table_name df st =
     (let st' = called (ToSql table_name (column_names df) (length (rows df))) st in
      if down st \<or> \<not> distinct (map upper (column_names df)) then (Inl (raises st), st')
      else (case map_of (tables st) table_name of
              None \<Rightarrow>
                (Inr (int (length (rows df))),
                 st'\<lparr>tables := dict_set table_name
                     \<lparr>tcolumns = map (\<lambda>(c, d). \<lparr>cname = c, ctype = PandasType d, primary_key = False\<rparr>) (columns df),
                      trows = rows df\<rparr> (tables st)\<rparr>)
            | Some t \<Rightarrow>
                let new_rows = map (to_table_row (column_names df) (table_names t)) (rows df) in
                if \<not> list_all (\<lambda>c. find_column t c \<noteq> None) (column_names df)
                then (Inl (raises st), st')
                else if pk_ok t (trows t @ new_rows)
                then (Inr (int (length (rows df))),
                      st'\<lparr>tables := dict_set table_name (t\<lparr>trows := trows t @ new_rows\<rparr>) (tables st)\<rparr>)
                else (Inl (raises st),
                      st'\<lparr>tables := dict_set table_name
                          (t\<lparr>trows := trows t @ take (kept st) (accepted_prefix t (trows t) new_rows)\<rparr>)
                          (tables st)\<rparr>)))"

subsection \<open>create\_alter\_mssql\_table\<close>

text \<open>Lines 124 to 134: the column of a new table for a frame column of a given dtype.\<close>

fun create_type :: "dtype \<Rightarrow> sql_type" where
  "create_type Int64 = SaInteger"
| "create_type Object = SaString"
| "create_type Datetime64 = SaDateTime"
| "create_type Float64 = SaFloat"
| "create_type OtherDtype = SaString"

text \<open>Lines 206 to 215: the type of a column added to an existing table.\<close>

fun alter_type :: "dtype \<Rightarrow> sql_type" where
  "alter_type Int64 = SMALLINT"
| "alter_type Object = VARCHAR_512"
| "alter_type Datetime64 = DATETIME"
| "alter_type Float64 = FLOAT"
| "alter_type OtherDtype = VARCHAR_512"

definition mssql_cols_of :: "'v dataframe \<Rightarrow> sa_column list" where
  "mssql_cols_of data_to_insert =
     map (\<lambda>(col_name, col_type). \<lparr>cname = col_name, ctype = create_type col_type, primary_key = False\<rparr>)
       (columns data_to_insert)"

text \<open>Lines 140 to 142: \<^verbatim>\<open>for col in mssql_cols: if col.name == pk_column: col.primary_key = True\<close>\<close>

definition set_primary_key :: "string \<Rightarrow> sa_column list \<Rightarrow> sa_column list" where
  "set_primary_key pk_column cols =
     map (\<lambda>col. if cname col = pk_column then col\<lparr>primary_key := True\<rparr> else col) cols"

text \<open>Lines 169 to 189: the left join of the frame's columns with the table's columns on the
  upper-case name, keeping the rows marked \<^verbatim>\<open>left_only\<close>.\<close>

definition lj_col_names :: "'v dataframe \<Rightarrow> string list \<Rightarrow> (string \<times> dtype) list" where
  "lj_col_names data_to_insert tbl_columns =
     filter (\<lambda>(col_name, col_type). upper col_name \<notin> set (map upper tbl_columns)) (columns data_to_insert)"

text \<open>Lines 204 to 221: one \<^verbatim>\<open>ALTER TABLE ... ADD\<close> for each new column, each committed and
  logged before the next.\<close>

fun alter_loop :: "string \<Rightarrow> (string \<times> dtype) list \<Rightarrow> 'v mssql \<Rightarrow> (exn + unit) \<times> 'v mssql" where
  "alter_loop table_name [] st = (Inr (), st)"
| "alter_loop table_name ((col_name, col_type) # rest) st =
     (case alter_add table_name col_name (alter_type col_type) st of
        (Inl e, st') \<Rightarrow> (Inl e, st')
      | (Inr _, st') \<Rightarrow>
          alter_loop table_name rest
            (logger (Info_column_created col_name (alter_type col_type) table_name) st'))"

text \<open>The body of the \<^verbatim>\<open>try\<close> block.\<close>

definition create_alter_body ::
  "string \<Rightarrow> 'v dataframe \<Rightarrow> string \<Rightarrow> bool \<Rightarrow> string \<Rightarrow> 'v mssql \<Rightarrow> (exn + bool) \<times> 'v mssql" where
  "create_alter_body table_name data_to_insert pk_column pk_flag text_file_name st =
     (case has_table table_name st of
        (Inl e, st1) \<Rightarrow> (Inl e, st1)
      | (Inr tbl_exist, st1) \<Rightarrow>
          if \<not> df_empty data_to_insert then
            if \<not> tbl_exist then
              let mssql_cols = mssql_cols_of data_to_insert in
              if pk_column \<in> set (column_names data_to_insert) \<and> pk_flag then
                (case create_all table_name (set_primary_key pk_column mssql_cols) st1 of
                   (Inl e, st2) \<Rightarrow> (Inl e, st2)
                 | (Inr _, st2) \<Rightarrow> (Inr True, logger (Info_created_with_pk table_name pk_column) st2))
              else if pk_column \<in> set (column_names data_to_insert) \<and> \<not> pk_flag then
                (case create_all table_name mssql_cols st1 of
                   (Inl e, st2) \<Rightarrow> (Inl e, st2)
                 | (Inr _, st2) \<Rightarrow> (Inr True, logger (Info_created_without_pk table_name) st2))
              else (Inr False, logger (Error_no_pk_column pk_column) st1)
            else
              (case reflect_columns table_name st1 of
                 (Inl e, st2) \<Rightarrow> (Inl e, st2)
               | (Inr tbl_columns, st2) \<Rightarrow>
                   let new_cols = lj_col_names data_to_insert tbl_columns in
                   if length new_cols > 0 then
                     (case alter_loop table_name new_cols
                             (logger (Warning_new_columns (length new_cols) text_file_name) st2) of
                        (Inl e, st3) \<Rightarrow> (Inl e, st3)
                      | (Inr _, st3) \<Rightarrow> (Inr True, st3))
                   else (Inr True, st2))
          else (Inr False, logger (Warning_no_data text_file_name) st1))"

text \<open>The function with its \<^verbatim>\<open>except\<close> clauses: an error of SQLAlchemy, and any other
  exception, is logged and the function returns \<^verbatim>\<open>False\<close>.\<close>

definition create_alter_mssql_table ::
  "string \<Rightarrow> 'v dataframe \<Rightarrow> string \<Rightarrow> bool \<Rightarrow> string \<Rightarrow> 'v mssql \<Rightarrow> bool \<times> 'v mssql" where
  "create_alter_mssql_table table_name data_to_insert pk_column pk_flag text_file_name st =
     (case create_alter_body table_name data_to_insert pk_column pk_flag text_file_name st of
        (Inr b, st') \<Rightarrow> (b, st')
      | (Inl SQLAlchemyError, st') \<Rightarrow> (False, logger (Error_sqlalchemy_create_alter table_name) st')
      | (Inl _, st') \<Rightarrow> (False, logger (Error_create_alter table_name) st'))"

subsection \<open>insert\_data\_msssql\<close>

text \<open>The body of the \<^verbatim>\<open>try\<close> block. With no foreign key the existing values of the key
  column are read; with one, the existing values of the foreign key column in the rows
  whose key column is \<open>pk_value\<close>.\<close>

definition insert_body ::
  "string \<Rightarrow> 'v dataframe \<Rightarrow> string \<Rightarrow> 'v \<Rightarrow> string \<Rightarrow> 'v mssql \<Rightarrow> (exn + int) \<times> 'v mssql" where
  "insert_body table_name data_to_insert pk_column pk_value fk_column st =
     (case (if fk_column = [] then read_sql table_name pk_column None st
            else read_sql table_name fk_column (Some (pk_column, pk_value)) st) of
        (Inl e, st1) \<Rightarrow> (Inl e, st1)
      | (Inr frame, st1) \<Rightarrow>
         (case frame_getitem frame (if fk_column = [] then pk_column else fk_column) of
            Inl e \<Rightarrow> (Inl e, st1)
          | Inr existing_tms \<Rightarrow>
             (case (if fk_column = [] then pd_merge_left data_to_insert existing_tms pk_column
                    else pd_merge_left data_to_insert existing_tms fk_column) of
                Inl e \<Rightarrow> (Inl e, st1)
              | Inr merge_df \<Rightarrow>
                  let new_records = left_only_records data_to_insert merge_df in
                  if length (rows new_records) > 0
                  then to_sql table_name new_records st1
                  else (Inr (- 1), st1))))"

text \<open>The function with its \<^verbatim>\<open>except\<close> clauses: the exception is logged and the function
  ends without a \<^verbatim>\<open>return\<close>, so the caller receives \<^verbatim>\<open>None\<close>.\<close>

definition insert_data_msssql ::
  "string \<Rightarrow> 'v dataframe \<Rightarrow> string \<Rightarrow> 'v \<Rightarrow> string \<Rightarrow> 'v mssql \<Rightarrow> int option \<times> 'v mssql" where
  "insert_data_msssql table_name data_to_insert pk_column pk_value fk_column st =
     (case insert_body table_name data_to_insert pk_column pk_value fk_column st of
        (Inr num_ins, st') \<Rightarrow> (Some num_ins, st')
      | (Inl SQLAlchemyError, st') \<Rightarrow> (None, logger (Error_sqlalchemy_insert table_name) st')
      | (Inl _, st') \<Rightarrow> (None, logger (Error_insert table_name) st'))"

section \<open>Examples\<close>

subsection \<open>Example documents\<close>

text \<open>Small documents in the layout of the decrypted logger files, used to run the functions
  on concrete input.\<close>

definition doc_site :: "string list" where
  "doc_site = [''Export Parameters'' @ [CHR 0x0A], ''Site Number: 42'' @ [CHR 0x0A],
               ''Model: Symphonie Pro'' @ [CHR 0x0A], [CHR 0x0A], ''Data'' @ [CHR 0x0A]]"

definition doc_dup_keys :: "string list" where
  "doc_dup_keys = [''Header'' @ [CHR 0x0A], ''a: 1'' @ [CHR 0x0A], ''a: 2'' @ [CHR 0x0A],
                   ''a: 3'' @ [CHR 0x0A], [CHR 0x0A]]"

definition doc_open_end :: "string list" where
  "doc_open_end = [''Export Parameters'' @ [CHR 0x0A], ''Site Number: 42'' @ [CHR 0x0A],
                   ''Model: Symphonie Pro'']"

definition doc_key_again :: "string list" where
  "doc_key_again = [''Export Parameters'' @ [CHR 0x0A],
                    ''Time: Local Time: 10:00'' @ [CHR 0x0A], [CHR 0x0A]]"

subsection \<open>Example batches and stores\<close>

text \<open>The answer of the example stores to a pasted key value. A numeral stands in the
  statement as a number: the store converts the cells of the column to numbers, rejects the
  statement when a cell is not a numeral, and selects the rows whose cell is the same number
  (numerals are compared without their leading zeros). The other two values the examples
  paste are the empty text, the default of \<open>pk_value\<close>, with which the statement ends in
  \<^verbatim>\<open>= ;\<close>, and \<^verbatim>\<open>A7\<close>, which then stands in the statement as the name of a column no
  table has: the store rejects both statements.\<close>

definition is_numeral :: "string \<Rightarrow> bool" where
  "is_numeral s = (s \<noteq> [] \<and> list_all (\<lambda>c. c \<in> set ''0123456789'') s)"

definition same_number :: "string \<Rightarrow> string \<Rightarrow> bool" where
  "same_number a b = (dropWhile (\<lambda>c. c = CHR ''0'') a = dropWhile (\<lambda>c. c = CHR ''0'') b)"

definition where_of_examples :: "string \<Rightarrow> string \<Rightarrow> string table \<Rightarrow> string option list list option" where
  "where_of_examples k v t =
     (if is_numeral v
      then (if list_all (\<lambda>r. case row_cell (table_names t) r k of None \<Rightarrow> True | Some s \<Rightarrow> is_numeral s)
                 (trows t)
            then Some (filter (\<lambda>r. case row_cell (table_names t) r k of None \<Rightarrow> False
                                     | Some s \<Rightarrow> same_number s v) (trows t))
            else None)
      else None)"

definition empty_store :: "string mssql" where
  "empty_store = \<lparr>tables = [], down = False, raises = SQLAlchemyError, kept = 0,
                   select_where = where_of_examples, journal = [], logged = []\<rparr>"

definition batch_two :: "string dataframe" where
  "batch_two = \<lparr>columns = [(''Timestamp'', Datetime64), (''Val1'', Int64)],
                rows = [[Some ''2024-01-01 00:00'', Some ''10''],
                        [Some ''2024-01-01 00:10'', Some ''11'']]\<rparr>"

definition batch_no_key :: "string dataframe" where
  "batch_no_key = \<lparr>columns = [(''Time'', Datetime64), (''Val1'', Int64)],
                   rows = [[Some ''2024-01-01 00:00'', Some ''10'']]\<rparr>"

definition batch_no_rows :: "string dataframe" where
  "batch_no_rows = \<lparr>columns = [(''Timestamp'', Datetime64), (''Val1'', Int64)], rows = []\<rparr>"


definition table_T :: "string table" where
  "table_T = \<lparr>tcolumns = [\<lparr>cname = ''Timestamp'', ctype = SaDateTime, primary_key = True\<rparr>,
                          \<lparr>cname = ''Val1'', ctype = SaInteger, primary_key = False\<rparr>],
              trows = [[Some ''2024-01-01 00:00'', Some ''10''],
                       [Some ''2024-01-01 00:10'', Some ''11'']]\<rparr>"

definition store_T :: "string mssql" where
  "store_T = \<lparr>tables = [(''NRG_Tower_SN_42'', table_T)], down = False, raises = SQLAlchemyError,
               kept = 0, select_where = where_of_examples, journal = [], logged = []\<rparr>"


definition batch_same_key :: "string dataframe" where
  "batch_same_key = \<lparr>columns = [(''Timestamp'', Datetime64), (''Val1'', Int64)],
                     rows = [[Some ''2024-01-01 00:30'', Some ''10''],
                             [Some ''2024-01-01 00:30'', Some ''11'']]\<rparr>"

definition batch_case_clash :: "string dataframe" where
  "batch_case_clash = \<lparr>columns = [(''Timestamp'', Datetime64), (''Val1'', Int64),
                                   (''M'', Float64), (''m'', Float64)],
                       rows = [[Some ''2024-01-01 00:20'', Some ''12'', Some ''0.5'', Some ''0.6'']]\<rparr>"

definition batch_channel_A7 :: "string dataframe" where
  "batch_channel_A7 = \<lparr>columns = [(''Channel'', Object), (''Type'', Object), (''Site Number'', Object)],
                       rows = [[Some ''1'', Some ''Anemometer'', Some ''A7'']]\<rparr>"

definition table_sensors :: "string table" where
  "table_sensors = \<lparr>tcolumns = [\<lparr>cname = ''Channel'', ctype = SaString, primary_key = False\<rparr>,
                                \<lparr>cname = ''Type'', ctype = SaString, primary_key = False\<rparr>,
                                \<lparr>cname = ''Site Number'', ctype = SaString, primary_key = False\<rparr>],
                    trows = [[Some ''1'', Some ''Anemometer'', Some ''41''],
                             [Some ''2'', Some ''Vane'', Some ''42'']]\<rparr>"

definition store_sensors :: "string mssql" where
  "store_sensors = \<lparr>tables = [(''NRG_Sensors'', table_sensors)], down = False,
                     raises = SQLAlchemyError, kept = 0, select_where = where_of_examples,
                     journal = [], logged = []\<rparr>"

definition batch_channels :: "string dataframe" where
  "batch_channels = \<lparr>columns = [(''Channel'', Object), (''Type'', Object), (''Site Number'', Object)],
                     rows = [[Some ''1'', Some ''Anemometer'', Some ''42''],
                             [Some ''2'', Some ''Vane'', Some ''42'']]\<rparr>"

section \<open>Properties of the scanner\<close>

lemma py_in_iff: "py_in needle s \<longleftrightarrow> (\<exists>ps ss. s = ps @ needle @ ss)"
proof (induction s)
  case Nil
  then show ?case by auto
next
  case (Cons c cs)
  show ?case
  proof
    assume "py_in needle (c # cs)"
    then consider "prefix needle (c # cs)" | "py_in needle cs" by auto
    then show "\<exists>ps ss. c # cs = ps @ needle @ ss"
    proof cases
      case 1
      then obtain ss where "c # cs = needle @ ss" by (auto simp: prefix_def)
      then have "c # cs = [] @ needle @ ss" by simp
      then show ?thesis by blast
    next
      case 2
      with Cons.IH obtain ps ss where "cs = ps @ needle @ ss" by blast
      then have "c # cs = (c # ps) @ needle @ ss" by simp
      then show ?thesis by blast
    qed
  next
    assume "\<exists>ps ss. c # cs = ps @ needle @ ss"
    then obtain ps ss where eq: "c # cs = ps @ needle @ ss" by blast
    show "py_in needle (c # cs)"
    proof (cases ps)
      case Nil
      with eq have "prefix needle (c # cs)" by (simp add: prefix_def)
      then show ?thesis by simp
    next
      case (Cons p ps')
      with eq have "cs = ps' @ needle @ ss" by simp
      with Cons.IH have "py_in needle cs" by blast
      then show ?thesis by simp
    qed
  qed
qed

lemma replace_scan_char: "replace_scan s [a] [b] = map (\<lambda>c. if c = a then b else c) s"
  by (induction s) auto

lemma py_replace_char: "py_replace s [a] [b] = map (\<lambda>c. if c = a then b else c) s"
  by (simp add: py_replace_def replace_scan_char)

lemma search_loop_hit:
  "i < length doc \<Longrightarrow> py_in p (doc ! i) \<Longrightarrow> (\<forall>j<i. \<not> py_in p (doc ! j)) \<Longrightarrow>
   search_loop n doc p =
     \<lparr>row_num = n + int i,
      param_value = py_replace (strip (py_replace (doc ! i) p [])) '' '' ''_''\<rparr>"
proof (induction doc arbitrary: n i)
  case Nil
  then show ?case by simp
next
  case (Cons l ls)
  show ?case
  proof (cases i)
    case 0
    with Cons.prems show ?thesis by simp
  next
    case (Suc k)
    from Cons.prems Suc have miss: "\<not> py_in p l" by auto
    from Cons.prems Suc have k: "k < length ls" "py_in p (ls ! k)" by auto
    from Cons.prems Suc have "\<forall>j<k. \<not> py_in p (ls ! j)" by auto
    with k Cons.IH [of k "n + 1"] have
      "search_loop (n + 1) ls p =
         \<lparr>row_num = n + 1 + int k,
          param_value = py_replace (strip (py_replace (ls ! k) p [])) '' '' ''_''\<rparr>"
      by blast
    with miss Suc show ?thesis by simp
  qed
qed

lemma search_loop_miss:
  "(\<forall>l\<in>set doc. \<not> py_in p l) \<Longrightarrow> search_loop n doc p = \<lparr>row_num = - 1, param_value = []\<rparr>"
  by (induction doc arbitrary: n) auto

text \<open>
  Claim C6. For every document and needle: when some line contains the needle, the result
  of \<open>search_param_txt\<close> is the 1-based number of the first such line, with that line after
  the needle is removed from it (every occurrence, as \<^verbatim>\<open>str.replace\<close> does), the
  surrounding white space is trimmed and each remaining space is replaced by an underscore;
  when no line contains the needle the result is the sentinel with line number \<open>-1\<close> and
  the empty value.
\<close>

theorem search_param_txt_first_match:
  "(i < length doc \<and> py_in needle (doc ! i) \<and> (\<forall>j<i. \<not> py_in needle (doc ! j)) \<longrightarrow>
      search_param_txt doc needle =
        \<lparr>row_num = int i + 1,
         param_value = map (\<lambda>c. if c = CHR '' '' then CHR ''_'' else c)
                         (strip (py_replace (doc ! i) needle []))\<rparr>)
   \<and> ((\<forall>l\<in>set doc. \<not> py_in needle l) \<longrightarrow>
      search_param_txt doc needle = \<lparr>row_num = - 1, param_value = []\<rparr>)"
  unfolding search_param_txt_def
  using search_loop_hit [of i doc needle 1] search_loop_miss [of doc needle 1]
  by (simp add: py_replace_char)

theorem search_param_txt_first_match_witness:
  "1 < length doc_site \<and> py_in ''Site Number:'' (doc_site ! 1)
   \<and> \<not> py_in ''Site Number:'' (doc_site ! 0)
   \<and> search_param_txt doc_site ''Site Number:'' = \<lparr>row_num = 2, param_value = ''42''\<rparr>
   \<and> \<not> py_in ''Serial'' (doc_site ! 0) \<and> \<not> py_in ''Serial'' (doc_site ! 1)
   \<and> search_param_txt doc_site ''Serial'' = \<lparr>row_num = - 1, param_value = []\<rparr>"
proof -
  have a: "1 < length doc_site" "py_in ''Site Number:'' (doc_site ! 1)"
    "\<not> py_in ''Site Number:'' (doc_site ! 0)"
    by (simp_all add: doc_site_def)
  have b: "\<forall>j<1. \<not> py_in ''Site Number:'' (doc_site ! j)" using a(3) by simp
  have c: "\<forall>l\<in>set doc_site. \<not> py_in ''Serial'' l" by (simp add: doc_site_def)
  have v: "map (\<lambda>c. if c = CHR '' '' then CHR ''_'' else c)
             (strip (py_replace (doc_site ! 1) ''Site Number:'' [])) = ''42''"
    by (simp add: doc_site_def py_replace_def strip_def is_space_def)
  from search_param_txt_first_match [of 1 doc_site "''Site Number:''"] a b v
  have "search_param_txt doc_site ''Site Number:'' = \<lparr>row_num = 2, param_value = ''42''\<rparr>"
    by simp
  moreover from search_param_txt_first_match [of 0 doc_site "''Serial''"] c
  have "search_param_txt doc_site ''Serial'' = \<lparr>row_num = - 1, param_value = []\<rparr>"
    by blast
  moreover have "\<not> py_in ''Serial'' (doc_site ! 0)" "\<not> py_in ''Serial'' (doc_site ! 1)"
    by (simp_all add: doc_site_def)
  ultimately show ?thesis using a by blast
qed

section \<open>Properties of the parameter block reader\<close>

lemma dict_set_map_fst:
  "map fst (dict_set k v d) = (if k \<in> set (map fst d) then map fst d else map fst d @ [k])"
  by (induction d) (auto simp: rev_image_eqI)

lemma dict_set_keys: "fst ` set (dict_set k v d) = insert k (fst ` set d)"
proof -
  have "set (map fst (dict_set k v d)) = insert k (set (map fst d))"
    unfolding dict_set_map_fst by auto
  then show ?thesis by simp
qed

lemma dict_set_distinct: "distinct (map fst d) \<Longrightarrow> distinct (map fst (dict_set k v d))"
  by (induction d) (auto simp: dict_set_keys)

lemma dict_set_fresh: "k \<notin> fst ` set d \<Longrightarrow> dict_set k v d = d @ [(k, v)]"
  by (induction d) auto

lemma fold_dict_set_keys:
  "fst ` set (fold (\<lambda>(k, v) d. dict_set k v d) ps acc) = fst ` set ps \<union> fst ` set acc"
proof (induction ps arbitrary: acc)
  case Nil
  then show ?case by simp
next
  case (Cons p ps)
  obtain k v where p: "p = (k, v)" by (cases p)
  have "fst ` set (fold (\<lambda>(k, v) d. dict_set k v d) ps (dict_set k v acc)) =
        fst ` set ps \<union> fst ` set (dict_set k v acc)"
    by (rule Cons.IH)
  then show ?case unfolding p by (simp add: dict_set_keys Un_commute insert_commute)
qed

lemma fold_dict_set_distinct:
  "distinct (map fst acc) \<Longrightarrow> distinct (map fst (fold (\<lambda>(k, v) d. dict_set k v d) ps acc))"
  by (induction ps arbitrary: acc) (auto simp: dict_set_distinct)

lemma fold_dict_set_fresh:
  "distinct (map fst (acc @ ps)) \<Longrightarrow> fold (\<lambda>(k, v) d. dict_set k v d) ps acc = acc @ ps"
proof (induction ps arbitrary: acc)
  case Nil
  then show ?case by simp
next
  case (Cons p ps)
  obtain k v where p: "p = (k, v)" by (cases p)
  from Cons.prems p have fresh: "k \<notin> fst ` set acc" by auto
  from Cons.prems p have "distinct (map fst ((acc @ [(k, v)]) @ ps))" by auto
  from Cons.IH [OF this] fresh p show ?case by (simp add: dict_set_fresh)
qed

lemma dict_zip_keys: "length ks = length vs \<Longrightarrow> fst ` set (dict_zip ks vs) = set ks"
  by (simp add: dict_zip_def fold_dict_set_keys) (metis map_fst_zip set_map)

lemma dict_zip_distinct: "distinct (map fst (dict_zip ks vs))"
  by (simp add: dict_zip_def fold_dict_set_distinct)

lemma dict_zip_length: "length ks = length vs \<Longrightarrow> length (dict_zip ks vs) = card (set ks)"
proof -
  assume len: "length ks = length vs"
  have "length (dict_zip ks vs) = length (map fst (dict_zip ks vs))" by simp
  also have "\<dots> = card (set (map fst (dict_zip ks vs)))"
    using dict_zip_distinct [of ks vs] by (simp only: distinct_card)
  also have "\<dots> = card (set ks)" using dict_zip_keys [OF len] by simp
  finally show ?thesis .
qed

lemma dict_zip_distinct_keys:
  "distinct ks \<Longrightarrow> length ks = length vs \<Longrightarrow> dict_zip ks vs = zip ks vs"
  using fold_dict_set_fresh [of "[]" "zip ks vs"] by (simp add: dict_zip_def)

lemma skip_lines_drop: "skip_lines n ls = (if n \<le> length ls then Some (drop n ls) else None)"
  by (induction n ls rule: skip_lines.induct) auto

lemma params_loop_skip:
  "c \<le> s \<Longrightarrow> params_loop ls c s ks vs = params_loop (drop (nat (s - c)) ls) s s ks vs"
proof (induction ls arbitrary: c)
  case Nil
  then show ?case by simp
next
  case (Cons l ls)
  show ?case
  proof (cases "c = s")
    case True
    then show ?thesis by simp
  next
    case False
    with Cons.prems have lt: "c + 1 \<le> s" by simp
    from False Cons.prems have "nat (s - c) = Suc (nat (s - (c + 1)))" by simp
    with Cons.IH [OF lt] False show ?thesis by simp
  qed
qed

lemma params_loop_read:
  "params_loop ls s s ks vs =
     (if \<exists>l\<in>set ls. strip l = []
      then Some (dict_zip (ks @ map param_key (takeWhile (\<lambda>l. strip l \<noteq> []) ls))
                          (vs @ map param_val (takeWhile (\<lambda>l. strip l \<noteq> []) ls)))
      else None)"
  by (induction ls arbitrary: ks vs) auto

lemma get_params_from_txt_block:
  assumes "0 < start_row doc header param_line" and "0 \<le> skip_rows"
  shows "get_params_from_txt doc header param_line skip_rows =
     (if \<exists>l\<in>set (drop (nat (start_row doc header param_line - 1) + nat skip_rows) doc). strip l = []
      then DataFrame (dict_zip (map param_key (block_lines doc (start_row doc header param_line) skip_rows))
                               (map param_val (block_lines doc (start_row doc header param_line) skip_rows)))
      else PyNone)"
proof -
  define r where "r = start_row doc header param_line"
  define m where "m = nat (r - 1)"
  show ?thesis
  proof (cases "m \<le> length doc")
    case True
    then have "skip_lines m doc = Some (drop m doc)" by (simp add: skip_lines_drop)
    moreover have "params_loop (drop m doc) 0 skip_rows [] [] =
        params_loop (drop (nat skip_rows) (drop m doc)) skip_rows skip_rows [] []"
      using params_loop_skip [of 0 skip_rows "drop m doc" "[]" "[]"] assms(2) by simp
    moreover have "drop (nat skip_rows) (drop m doc) = drop (m + nat skip_rows) doc"
      by (simp add: add.commute)
    ultimately show ?thesis using assms
      unfolding get_params_from_txt_def block_lines_def Let_def r_def [symmetric] m_def [symmetric]
      by (simp add: params_loop_read r_def m_def)
  next
    case False
    then have "skip_lines m doc = None" by (simp add: skip_lines_drop)
    moreover from False have "drop (m + nat skip_rows) doc = []" by simp
    ultimately show ?thesis using assms
      unfolding get_params_from_txt_def block_lines_def Let_def r_def [symmetric] m_def [symmetric]
      by (simp add: r_def m_def)
  qed
qed

text \<open>
  Claim C7 (as amended). For every document, start line \<open>r \<ge> 1\<close> and skip count
  \<open>skip_rows \<ge> 0\<close> such that some line from line \<open>r + skip_rows\<close> on is empty after
  trimming: the skipped lines are counted from the start line itself, the lines read are
  those from line \<open>r + skip_rows\<close> up to, and excluding, the first blank line, and every one
  of them is non-blank. The record returned is the dictionary built from their keys and
  values: its keys are the distinct keys of the lines read (a repeated key keeps its first
  position and its last value), so the number of keys is the number of distinct keys, and
  it is the number of lines read when their keys are pairwise distinct.
\<close>

theorem get_params_from_txt_block_record:
  fixes doc header param_line skip_rows
  defines "r \<equiv> start_row doc header param_line"
  defines "B \<equiv> block_lines doc r skip_rows"
  assumes "0 < r" and "0 \<le> skip_rows"
    and "\<exists>l\<in>set (drop (nat (r - 1) + nat skip_rows) doc). strip l = []"
  shows "\<exists>dynamic_dict blank rest.
      get_params_from_txt doc header param_line skip_rows = DataFrame dynamic_dict
    \<and> drop (nat (r - 1) + nat skip_rows) doc = B @ blank # rest \<and> strip blank = []
    \<and> (\<forall>l\<in>set B. strip l \<noteq> [])
    \<and> dynamic_dict = dict_zip (map param_key B) (map param_val B)
    \<and> distinct (map fst dynamic_dict)
    \<and> set (map fst dynamic_dict) = param_key ` set B
    \<and> length dynamic_dict = card (param_key ` set B)
    \<and> (distinct (map param_key B) \<longrightarrow>
          dynamic_dict = zip (map param_key B) (map param_val B) \<and> length dynamic_dict = length B)"
proof -
  let ?n = "nat (r - 1) + nat skip_rows"
  let ?d = "dict_zip (map param_key B) (map param_val B)"
  have res: "get_params_from_txt doc header param_line skip_rows = DataFrame ?d"
    using get_params_from_txt_block [of doc header param_line skip_rows] assms
    by (simp add: r_def B_def)
  have B: "B = takeWhile (\<lambda>l. strip l \<noteq> []) (drop ?n doc)"
    by (simp add: B_def block_lines_def)
  from assms(5) have "dropWhile (\<lambda>l. strip l \<noteq> []) (drop ?n doc) \<noteq> []"
    by (auto simp: dropWhile_eq_Nil_conv)
  then obtain blank rest where dw: "dropWhile (\<lambda>l. strip l \<noteq> []) (drop ?n doc) = blank # rest"
    by (cases "dropWhile (\<lambda>l. strip l \<noteq> []) (drop ?n doc)") auto
  then have blank: "strip blank = []" using hd_dropWhile [of "\<lambda>l. strip l \<noteq> []" "drop ?n doc"] by auto
  have split: "drop ?n doc = B @ blank # rest"
    using takeWhile_dropWhile_id [of "\<lambda>l. strip l \<noteq> []" "drop ?n doc"] dw B by simp
  have nb: "\<forall>l\<in>set B. strip l \<noteq> []" unfolding B by (auto dest: set_takeWhileD)
  have len: "length (map param_key B) = length (map param_val B)" by simp
  have d1: "distinct (map fst ?d)" by (rule dict_zip_distinct)
  have d2: "set (map fst ?d) = param_key ` set B" using dict_zip_keys [OF len] by simp
  have d3: "length ?d = card (param_key ` set B)" using dict_zip_length [OF len] by simp
  have d4: "distinct (map param_key B) \<longrightarrow>
          ?d = zip (map param_key B) (map param_val B) \<and> length ?d = length B"
    using dict_zip_distinct_keys [OF _ len] by simp
  from res split blank nb d1 d2 d3 d4 show ?thesis by blast
qed

theorem get_params_from_txt_block_record_witness:
  "0 < start_row doc_site ''Export Parameters'' 0 \<and> (0::int) \<le> 1
   \<and> (\<exists>l\<in>set (drop (nat (start_row doc_site ''Export Parameters'' 0 - 1) + nat 1) doc_site). strip l = [])
   \<and> get_params_from_txt doc_site ''Export Parameters'' 0 1 =
       DataFrame [(''Site Number'', ''42''), (''Model'', ''Symphonie Pro'')]"
proof -
  have a: "0 < start_row doc_site ''Export Parameters'' 0" by code_simp
  have b: "(0::int) \<le> 1" by simp
  have c: "\<exists>l\<in>set (drop (nat (start_row doc_site ''Export Parameters'' 0 - 1) + nat 1) doc_site). strip l = []"
    by code_simp
  have e: "dict_zip (map param_key (block_lines doc_site (start_row doc_site ''Export Parameters'' 0) 1))
                    (map param_val (block_lines doc_site (start_row doc_site ''Export Parameters'' 0) 1))
           = [(''Site Number'', ''42''), (''Model'', ''Symphonie Pro'')]"
    by code_simp
  from get_params_from_txt_block_record [OF a b c] e
  have "get_params_from_txt doc_site ''Export Parameters'' 0 1 =
       DataFrame [(''Site Number'', ''42''), (''Model'', ''Symphonie Pro'')]" by auto
  with a b c show ?thesis by blast
qed

text \<open>
  The claim as first stated (as many keys as non-blank lines between the start line and the
  first blank line) fails where a key is repeated: three lines with the key \<open>a\<close> follow the
  header, and the record has the single key \<open>a\<close>.
\<close>

theorem get_params_from_txt_key_count_counterexample:
  "get_params_from_txt doc_dup_keys ''Header'' 0 1 = DataFrame [(''a'', ''3'')]
   \<and> length [(''a'', ''3'')] = 1
   \<and> takeWhile (\<lambda>l. strip l \<noteq> []) (drop 1 doc_dup_keys) =
        [''a: 1'' @ [CHR 0x0A], ''a: 2'' @ [CHR 0x0A], ''a: 3'' @ [CHR 0x0A]]
   \<and> length (takeWhile (\<lambda>l. strip l \<noteq> []) (drop 1 doc_dup_keys)) = 3"
  by code_simp

text \<open>
  Claim C10. When no line from line \<open>r + skip_rows\<close> on is empty after trimming (the file
  ends while lines are still being accumulated, or before the block starts), the function
  returns \<open>PyNone\<close>: neither the record accumulated so far nor an empty frame.
\<close>

theorem get_params_from_txt_unterminated:
  "0 < start_row doc header param_line \<Longrightarrow> 0 \<le> skip_rows \<Longrightarrow>
   \<forall>l\<in>set (drop (nat (start_row doc header param_line - 1) + nat skip_rows) doc). strip l \<noteq> [] \<Longrightarrow>
   get_params_from_txt doc header param_line skip_rows = PyNone"
  using get_params_from_txt_block [of doc header param_line skip_rows] by auto

theorem get_params_from_txt_unterminated_witness:
  "0 < start_row doc_open_end ''Export Parameters'' 0 \<and> (0::int) \<le> 1
   \<and> list_all (\<lambda>l. strip l \<noteq> []) (drop (nat (start_row doc_open_end ''Export Parameters'' 0 - 1) + nat 1) doc_open_end)
   \<and> drop (nat (start_row doc_open_end ''Export Parameters'' 0 - 1) + nat 1) doc_open_end
        = [''Site Number: 42'' @ [CHR 0x0A], ''Model: Symphonie Pro'']
   \<and> get_params_from_txt doc_open_end ''Export Parameters'' 0 1 = PyNone"
proof -
  have a: "0 < start_row doc_open_end ''Export Parameters'' 0" by code_simp
  have b: "(0::int) \<le> 1" by simp
  have c: "list_all (\<lambda>l. strip l \<noteq> []) (drop (nat (start_row doc_open_end ''Export Parameters'' 0 - 1) + nat 1) doc_open_end)"
    by code_simp
  then have c': "\<forall>l\<in>set (drop (nat (start_row doc_open_end ''Export Parameters'' 0 - 1) + nat 1) doc_open_end). strip l \<noteq> []"
    by (simp add: list_all_iff)
  have d: "drop (nat (start_row doc_open_end ''Export Parameters'' 0 - 1) + nat 1) doc_open_end
        = [''Site Number: 42'' @ [CHR 0x0A], ''Model: Symphonie Pro'']" by code_simp
  from get_params_from_txt_unterminated [OF a b c'] a b c d show ?thesis by blast
qed

text \<open>
  Claim C8. The value of a line is the line with every occurrence of \<open>key + ":"\<close> removed
  (\<^verbatim>\<open>line.replace\<close>), not only the prefix. On the line \<^verbatim>\<open>Time: Local Time: 10:00\<close> the key
  is \<^verbatim>\<open>Time\<close> and the value the code stores is \<^verbatim>\<open>Local  10:00\<close>: the second \<^verbatim>\<open>Time:\<close>,
  which is part of the value, is lost with its colon, while the colon of \<^verbatim>\<open>10:00\<close> is kept.
\<close>

theorem get_params_from_txt_repeated_key_prefix:
  "get_params_from_txt doc_key_again ''Export Parameters'' 0 1 = DataFrame [(''Time'', ''Local  10:00'')]"
  by code_simp

section \<open>Properties of the schema reconciler\<close>








text \<open>
  Claim C5. For every non-empty batch whose columns do not contain the declared key column,
  when the target table does not exist, \<open>create_alter_mssql_table\<close> returns \<open>False\<close>, the
  store's tables are unchanged and the only call made to the store is the catalog query;
  on a store that can be reached the outcome logged is the missing key column. For every
  empty batch it returns \<open>False\<close>, again with unchanged tables and no call but the catalog
  query.
\<close>

theorem create_alter_missing_key_or_empty:
  "(\<not> df_empty df \<and> pk_column \<notin> set (column_names df) \<and> map_of (tables st) table_name = None
      \<and> \<not> down st \<longrightarrow>
      create_alter_mssql_table table_name df pk_column pk_flag text_file_name st =
        (False, st\<lparr>journal := journal st @ [HasTable table_name],
                    logged := logged st @ [Error_no_pk_column pk_column]\<rparr>))
   \<and> (\<not> df_empty df \<and> pk_column \<notin> set (column_names df) \<and> map_of (tables st) table_name = None \<longrightarrow>
      fst (create_alter_mssql_table table_name df pk_column pk_flag text_file_name st) = False
      \<and> tables (snd (create_alter_mssql_table table_name df pk_column pk_flag text_file_name st)) = tables st
      \<and> journal (snd (create_alter_mssql_table table_name df pk_column pk_flag text_file_name st))
          = journal st @ [HasTable table_name])
   \<and> (df_empty df \<longrightarrow>
      fst (create_alter_mssql_table table_name df pk_column pk_flag text_file_name st) = False
      \<and> tables (snd (create_alter_mssql_table table_name df pk_column pk_flag text_file_name st)) = tables st
      \<and> journal (snd (create_alter_mssql_table table_name df pk_column pk_flag text_file_name st))
          = journal st @ [HasTable table_name])"
  by (auto simp: create_alter_mssql_table_def create_alter_body_def has_table_def called_def
        logger_def Let_def split: exn.splits)

theorem create_alter_missing_key_or_empty_witness:
  "\<not> df_empty batch_no_key \<and> ''Timestamp'' \<notin> set (column_names batch_no_key)
   \<and> map_of (tables empty_store) ''NRG_Tower_SN_42'' = None \<and> \<not> down empty_store
   \<and> create_alter_mssql_table ''NRG_Tower_SN_42'' batch_no_key ''Timestamp'' True ''f.txt'' empty_store =
        (False, empty_store\<lparr>journal := [HasTable ''NRG_Tower_SN_42''],
                           logged := [Error_no_pk_column ''Timestamp'']\<rparr>)
   \<and> df_empty batch_no_rows
   \<and> fst (create_alter_mssql_table ''NRG_Tower_SN_42'' batch_no_rows ''Timestamp'' True ''f.txt'' store_T) = False
   \<and> tables (snd (create_alter_mssql_table ''NRG_Tower_SN_42'' batch_no_rows ''Timestamp'' True ''f.txt'' store_T))
        = tables store_T
   \<and> journal (snd (create_alter_mssql_table ''NRG_Tower_SN_42'' batch_no_rows ''Timestamp'' True ''f.txt'' store_T))
        = [HasTable ''NRG_Tower_SN_42'']"
proof -
  have a: "\<not> df_empty batch_no_key" "''Timestamp'' \<notin> set (column_names batch_no_key)"
    "map_of (tables empty_store) ''NRG_Tower_SN_42'' = None" "\<not> down empty_store"
    by (simp_all add: df_empty_def batch_no_key_def column_names_def empty_store_def)
  have b: "df_empty batch_no_rows" by (simp add: df_empty_def batch_no_rows_def)
  have j: "journal empty_store = []" "logged empty_store = []" "journal store_T = []"
    by (simp_all add: empty_store_def store_T_def)
  from create_alter_missing_key_or_empty
         [of batch_no_key "''Timestamp''" empty_store "''NRG_Tower_SN_42''" True "''f.txt''"] a j
  have 1: "create_alter_mssql_table ''NRG_Tower_SN_42'' batch_no_key ''Timestamp'' True ''f.txt'' empty_store =
        (False, empty_store\<lparr>journal := [HasTable ''NRG_Tower_SN_42''],
                           logged := [Error_no_pk_column ''Timestamp'']\<rparr>)" by simp
  from create_alter_missing_key_or_empty
         [of batch_no_rows "''Timestamp''" store_T "''NRG_Tower_SN_42''" True "''f.txt''"] b j
  have 2: "fst (create_alter_mssql_table ''NRG_Tower_SN_42'' batch_no_rows ''Timestamp'' True ''f.txt'' store_T) = False
   \<and> tables (snd (create_alter_mssql_table ''NRG_Tower_SN_42'' batch_no_rows ''Timestamp'' True ''f.txt'' store_T))
        = tables store_T
   \<and> journal (snd (create_alter_mssql_table ''NRG_Tower_SN_42'' batch_no_rows ''Timestamp'' True ''f.txt'' store_T))
        = [HasTable ''NRG_Tower_SN_42'']" by simp
  from a b 1 2 show ?thesis by blast
qed




section \<open>Properties of the upsert engine\<close>



lemma column_names_update_rows [simp]: "column_names (df\<lparr>rows := rs\<rparr>) = column_names df"
  by (simp add: column_names_def)








text \<open>
  Claim C3. With a foreign key column the statement that reads the existing values is
  \<^verbatim>\<open>SELECT [fk_column] FROM ... WHERE [pk_column] = pk_value;\<close> with the text of the key
  value pasted in without quotes (line 276). For the key value \<^verbatim>\<open>42\<close> the function does what
  the claim says: of the two channels of the batch it leaves out channel 2, which the table
  has under site 42, appends channel 1, which the table has under site 41 only, and returns
  1. For the key value \<^verbatim>\<open>A7\<close> the store reads the pasted text as the name of a column,
  which the table does not have, and rejects the statement: the function logs the error and
  returns \<open>None\<close> after the one query, and the row of the batch, whose channel no row of the
  table has under the key value \<^verbatim>\<open>A7\<close>, is not appended. The same happens with the default
  of \<open>pk_value\<close>, the empty text.
\<close>

theorem insert_data_msssql_mode_b_pasted_key_value:
  "fst (insert_data_msssql ''NRG_Sensors'' batch_channels ''Site Number'' ''42'' ''Channel'' store_sensors)
     = Some 1
   \<and> tables (snd (insert_data_msssql ''NRG_Sensors'' batch_channels ''Site Number'' ''42'' ''Channel''
                    store_sensors))
       = [(''NRG_Sensors'',
           table_sensors\<lparr>trows := trows table_sensors @ [[Some ''1'', Some ''Anemometer'', Some ''42'']]\<rparr>)]
   \<and> journal (snd (insert_data_msssql ''NRG_Sensors'' batch_channels ''Site Number'' ''42'' ''Channel''
                    store_sensors))
       = [ReadSql ''NRG_Sensors'' ''Channel'' (Some (''Site Number'', ''42'')),
          ToSql ''NRG_Sensors'' [''Channel'', ''Type'', ''Site Number''] 1]
   \<and> list_all (\<lambda>r. row_cell (table_names table_sensors) r ''Site Number'' \<noteq> Some ''A7'')
        (trows table_sensors)
   \<and> fst (insert_data_msssql ''NRG_Sensors'' batch_channel_A7 ''Site Number'' ''A7'' ''Channel'' store_sensors)
     = None
   \<and> tables (snd (insert_data_msssql ''NRG_Sensors'' batch_channel_A7 ''Site Number'' ''A7'' ''Channel''
                    store_sensors)) = tables store_sensors
   \<and> journal (snd (insert_data_msssql ''NRG_Sensors'' batch_channel_A7 ''Site Number'' ''A7'' ''Channel''
                    store_sensors))
       = [ReadSql ''NRG_Sensors'' ''Channel'' (Some (''Site Number'', ''A7''))]
   \<and> logged (snd (insert_data_msssql ''NRG_Sensors'' batch_channel_A7 ''Site Number'' ''A7'' ''Channel''
                    store_sensors))
       = [Error_sqlalchemy_insert ''NRG_Sensors'']
   \<and> fst (insert_data_msssql ''NRG_Sensors'' batch_channel_A7 ''Site Number'' [] ''Channel'' store_sensors)
     = None"
  by code_simp

subsection \<open>Round trip\<close>





lemma table_names_mssql_cols [simp]:
  "map cname (mssql_cols_of df) = column_names df"
  "map cname (set_primary_key pk (mssql_cols_of df)) = column_names df"
  by (simp_all add: mssql_cols_of_def set_primary_key_def column_names_def comp_def case_prod_beta)






subsection \<open>Errors of the store\<close>

lemma read_sql_state:
  "snd (read_sql table_name col wh st) = called (ReadSql table_name col wh) st"
  by (simp add: read_sql_def Let_def split: option.splits prod.splits)

lemma to_sql_journal:
  "journal (snd (to_sql table_name df st)) =
     journal st @ [ToSql table_name (column_names df) (length (rows df))]"
  "logged (snd (to_sql table_name df st)) = logged st"
  by (simp_all add: to_sql_def called_def Let_def split: option.splits)

lemma insert_body_error_journal:
  assumes "fst (insert_body table_name df pk_column pk_value fk_column st) = Inl e"
  defines "rd \<equiv> ReadSql table_name (if fk_column = [] then pk_column else fk_column)
                   (if fk_column = [] then None else Some (pk_column, pk_value))"
  shows "logged (snd (insert_body table_name df pk_column pk_value fk_column st)) = logged st
       \<and> (journal (snd (insert_body table_name df pk_column pk_value fk_column st)) = journal st @ [rd]
          \<or> (\<exists>n. journal (snd (insert_body table_name df pk_column pk_value fk_column st))
                   = journal st @ [rd, ToSql table_name (column_names df) n]))"
proof -
  let ?r = "if fk_column = [] then read_sql table_name pk_column None st
            else read_sql table_name fk_column (Some (pk_column, pk_value)) st"
  have s: "snd ?r = called rd st" by (simp add: rd_def read_sql_state)
  obtain x st1 where r: "?r = (x, st1)" by (cases ?r)
  with s have st1: "st1 = called rd st" by simp
  show ?thesis
  proof (cases x)
    case (Inl e')
    then show ?thesis using r st1 unfolding insert_body_def by (simp add: called_def)
  next
    case (Inr frame)
    show ?thesis
    proof (cases "frame_getitem frame (if fk_column = [] then pk_column else fk_column)")
      case (Inl e')
      then show ?thesis using r st1 Inr unfolding insert_body_def by (simp add: called_def)
    next
      case gi: (Inr existing_tms)
      show ?thesis
      proof (cases "if fk_column = [] then pd_merge_left df existing_tms pk_column
                    else pd_merge_left df existing_tms fk_column")
        case (Inl e')
        then show ?thesis using r st1 Inr gi unfolding insert_body_def by (simp add: called_def)
      next
        case mg: (Inr merge_df)
        have body: "insert_body table_name df pk_column pk_value fk_column st =
             (if length (rows (left_only_records df merge_df)) > 0
              then to_sql table_name (left_only_records df merge_df) st1
              else (Inr (- 1), st1))"
          using r Inr gi mg unfolding insert_body_def by (simp add: Let_def)
        show ?thesis
        proof (cases "length (rows (left_only_records df merge_df)) > 0")
          case True
          have cn: "column_names (left_only_records df merge_df) = column_names df"
            by (simp add: left_only_records_def column_names_def)
          from True body st1 show ?thesis
            by (auto simp: to_sql_journal cn called_def)
        next
          case False
          with body assms(1) show ?thesis by simp
        qed
      qed
    qed
  qed
qed

lemma alter_add_journal:
  "journal (snd (alter_add table_name col ty st)) = journal st @ [AlterAdd table_name col ty]"
  by (simp add: alter_add_def called_def Let_def split: option.splits)

lemma alter_loop_error_journal:
  "fst (alter_loop table_name cols st) = Inl e \<Longrightarrow>
   \<exists>k<length cols. journal (snd (alter_loop table_name cols st)) =
      journal st @ map (\<lambda>(c, d). AlterAdd table_name c (alter_type d)) (take (Suc k) cols)"
proof (induction cols arbitrary: st)
  case Nil
  then show ?case by simp
next
  case (Cons p cols)
  obtain c d where p: "p = (c, d)" by (cases p)
  obtain x st' where a: "alter_add table_name c (alter_type d) st = (x, st')"
    by (cases "alter_add table_name c (alter_type d) st")
  have j: "journal st' = journal st @ [AlterAdd table_name c (alter_type d)]"
    using alter_add_journal [of table_name c "alter_type d" st] a by simp
  show ?case
  proof (cases x)
    case (Inl e')
    with a p j have "journal (snd (alter_loop table_name (p # cols) st)) =
      journal st @ map (\<lambda>(c, d). AlterAdd table_name c (alter_type d)) (take (Suc 0) (p # cols))"
      by simp
    then show ?thesis by blast
  next
    case (Inr u)
    let ?st2 = "logger (Info_column_created c (alter_type d) table_name) st'"
    from Inr a p have eq: "alter_loop table_name (p # cols) st = alter_loop table_name cols ?st2"
      by simp
    with Cons.prems have "fst (alter_loop table_name cols ?st2) = Inl e" by simp
    from Cons.IH [OF this] obtain k where k: "k < length cols"
      and jk: "journal (snd (alter_loop table_name cols ?st2)) =
        journal ?st2 @ map (\<lambda>(c, d). AlterAdd table_name c (alter_type d)) (take (Suc k) cols)"
      by blast
    have "journal (snd (alter_loop table_name (p # cols) st)) =
      journal st @ map (\<lambda>(c, d). AlterAdd table_name c (alter_type d)) (take (Suc (Suc k)) (p # cols))"
      unfolding eq using jk j p by (simp add: logger_def)
    with k show ?thesis by (intro exI [of _ "Suc k"]) simp
  qed
qed

lemma create_alter_body_error_journal:
  fixes st :: "'v mssql"
  assumes err: "fst (create_alter_body table_name df pk_column pk_flag text_file_name st) = Inl e"
  shows "\<exists>calls. journal (snd (create_alter_body table_name df pk_column pk_flag text_file_name st))
                   = journal st @ calls
     \<and> (calls = [HasTable table_name]
        \<or> (\<exists>cols. calls = [HasTable table_name, CreateAll table_name cols])
        \<or> calls = [HasTable table_name, Reflect table_name]
        \<or> (\<exists>t k. map_of (tables st) table_name = Some t
              \<and> k < length (lj_col_names df (table_names t))
              \<and> calls = [HasTable table_name, Reflect table_name]
                   @ map (\<lambda>(c, d). AlterAdd table_name c (alter_type d))
                       (take (Suc k) (lj_col_names df (table_names t)))))"
proof -
  let ?b = "create_alter_body table_name df pk_column pk_flag text_file_name st"
  let ?st1 = "called (HasTable table_name) st"
  have j1: "journal ?st1 = journal st @ [HasTable table_name]" by (simp add: called_def)
  show ?thesis
  proof (cases "down st")
    case True
    then have "journal (snd ?b) = journal st @ [HasTable table_name]"
      by (simp add: create_alter_body_def has_table_def called_def Let_def)
    then show ?thesis by blast
  next
    case up: False
    then have h: "has_table table_name st = (Inr (map_of (tables st) table_name \<noteq> None), ?st1)"
      by (simp add: has_table_def Let_def)
    show ?thesis
    proof (cases "df_empty df")
      case True
      with h err show ?thesis by (simp add: create_alter_body_def)
    next
      case ne: False
      show ?thesis
      proof (cases "map_of (tables st) table_name")
        case None
        have cj: "journal (snd (create_all table_name cols ?st1))
                   = journal st @ [HasTable table_name, CreateAll table_name cols]" for cols
          by (simp add: create_all_def called_def Let_def)
        have "\<exists>cols. journal (snd ?b) = journal st @ [HasTable table_name, CreateAll table_name cols]"
        proof (cases "pk_column \<in> set (column_names df)")
          case False
          with h None ne err show ?thesis by (simp add: create_alter_body_def Let_def)
        next
          case True
          show ?thesis
          proof (cases pk_flag)
            case True
            let ?c = "set_primary_key pk_column (mssql_cols_of df)"
            obtain x st2 where c: "create_all table_name ?c ?st1 = (x, st2)"
              by (cases "create_all table_name ?c ?st1")
            with cj [of ?c] have j2: "journal st2 = journal st @ [HasTable table_name, CreateAll table_name ?c]"
              by simp
            from err h None ne \<open>pk_column \<in> set (column_names df)\<close> True c
            have "snd ?b = st2"
              by (cases x) (simp_all add: create_alter_body_def Let_def)
            with j2 show ?thesis by auto
          next
            case False
            let ?c = "mssql_cols_of df"
            obtain x st2 where c: "create_all table_name ?c ?st1 = (x, st2)"
              by (cases "create_all table_name ?c ?st1")
            with cj [of ?c] have j2: "journal st2 = journal st @ [HasTable table_name, CreateAll table_name ?c]"
              by simp
            from err h None ne \<open>pk_column \<in> set (column_names df)\<close> False c
            have "snd ?b = st2"
              by (cases x) (simp_all add: create_alter_body_def Let_def)
            with j2 show ?thesis by auto
          qed
        qed
        then show ?thesis by blast
      next
        case (Some t)
        let ?st2 = "called (Reflect table_name) ?st1"
        let ?new = "lj_col_names df (table_names t)"
        let ?st3 = "logger (Warning_new_columns (length ?new) text_file_name) ?st2"
        have r: "reflect_columns table_name ?st1 = (Inr (table_names t), ?st2)"
          using up Some by (simp add: reflect_columns_def called_def Let_def)
        have j3: "journal ?st3 = journal st @ [HasTable table_name, Reflect table_name]"
          by (simp add: called_def logger_def)
        have b: "?b = (if length ?new > 0
                       then (case alter_loop table_name ?new ?st3 of
                               (Inl e, st3) \<Rightarrow> (Inl e, st3) | (Inr _, st3) \<Rightarrow> (Inr True, st3))
                       else (Inr True, ?st2))"
          using h Some ne r by (simp add: create_alter_body_def Let_def)
        show ?thesis
        proof (cases "length ?new > 0")
          case False
          with b err show ?thesis by simp
        next
          case True
          obtain x st4 where l: "alter_loop table_name ?new ?st3 = (x, st4)"
            by (cases "alter_loop table_name ?new ?st3")
          with b True err have x: "fst (alter_loop table_name ?new ?st3) = Inl e" and s4: "snd ?b = st4"
            by (cases x; simp)+
          from alter_loop_error_journal [OF x] l obtain k where k: "k < length ?new"
            and jk: "journal st4 = journal ?st3 @ map (\<lambda>(c, d). AlterAdd table_name c (alter_type d))
                                                    (take (Suc k) ?new)"
            by auto
          have "journal (snd ?b) = journal st @ ([HasTable table_name, Reflect table_name]
                   @ map (\<lambda>(c, d). AlterAdd table_name c (alter_type d)) (take (Suc k) ?new))"
            using jk j3 s4 by simp
          with Some k show ?thesis by blast
        qed
      qed
    qed
  qed
qed

text \<open>
  Claim C9 (as amended). When the store raises an error during a schema or insert
  operation, the function that made the call catches it and logs it, and the caller
  receives \<open>False\<close> from \<open>create_alter_mssql_table\<close> and \<open>None\<close> from
  \<open>insert_data_msssql\<close>, not the exception. No call is made again and none follows the
  rejected one. The calls of a failed \<open>create_alter_mssql_table\<close> are the existence check,
  then at most one creation, or the reflection and then one \<^verbatim>\<open>ALTER\<close> for each new column
  in order up to the rejected one. The calls of a failed \<open>insert_data_msssql\<close> are the query
  and at most one append. On a store that cannot be reached each function makes exactly one
  call.
\<close>

theorem store_error_is_caught_and_not_retried:
  "(fst (create_alter_body table_name df pk_column pk_flag text_file_name st) = Inl e \<longrightarrow>
      create_alter_mssql_table table_name df pk_column pk_flag text_file_name st =
        (False, logger (if e = SQLAlchemyError then Error_sqlalchemy_create_alter table_name
                        else Error_create_alter table_name)
                  (snd (create_alter_body table_name df pk_column pk_flag text_file_name st)))
    \<and> (\<exists>calls. journal (snd (create_alter_mssql_table table_name df pk_column pk_flag text_file_name st))
                   = journal st @ calls
         \<and> (calls = [HasTable table_name]
            \<or> (\<exists>cols. calls = [HasTable table_name, CreateAll table_name cols])
            \<or> calls = [HasTable table_name, Reflect table_name]
            \<or> (\<exists>t k. map_of (tables st) table_name = Some t
                  \<and> k < length (lj_col_names df (table_names t))
                  \<and> calls = [HasTable table_name, Reflect table_name]
                       @ map (\<lambda>(c, d). AlterAdd table_name c (alter_type d))
                           (take (Suc k) (lj_col_names df (table_names t)))))))
   \<and> (fst (insert_body table_name df pk_column pk_value fk_column st) = Inl e \<longrightarrow>
        fst (insert_data_msssql table_name df pk_column pk_value fk_column st) = None
      \<and> logged (snd (insert_data_msssql table_name df pk_column pk_value fk_column st)) =
          logged st @ [if e = SQLAlchemyError then Error_sqlalchemy_insert table_name
                       else Error_insert table_name]
      \<and> (\<exists>calls. journal (snd (insert_data_msssql table_name df pk_column pk_value fk_column st))
                    = journal st @ calls
            \<and> (calls = [ReadSql table_name (if fk_column = [] then pk_column else fk_column)
                           (if fk_column = [] then None else Some (pk_column, pk_value))]
               \<or> (\<exists>n. calls = [ReadSql table_name (if fk_column = [] then pk_column else fk_column)
                                  (if fk_column = [] then None else Some (pk_column, pk_value)),
                                ToSql table_name (column_names df) n]))))
   \<and> (down st \<longrightarrow>
        fst (create_alter_mssql_table table_name df pk_column pk_flag text_file_name st) = False
      \<and> journal (snd (create_alter_mssql_table table_name df pk_column pk_flag text_file_name st))
          = journal st @ [HasTable table_name]
      \<and> fst (insert_data_msssql table_name df pk_column pk_value fk_column st) = None
      \<and> journal (snd (insert_data_msssql table_name df pk_column pk_value fk_column st))
          = journal st @ [ReadSql table_name (if fk_column = [] then pk_column else fk_column)
                            (if fk_column = [] then None else Some (pk_column, pk_value))])"
proof (intro conjI impI)
  assume err: "fst (create_alter_body table_name df pk_column pk_flag text_file_name st) = Inl e"
  then show res: "create_alter_mssql_table table_name df pk_column pk_flag text_file_name st =
        (False, logger (if e = SQLAlchemyError then Error_sqlalchemy_create_alter table_name
                        else Error_create_alter table_name)
                  (snd (create_alter_body table_name df pk_column pk_flag text_file_name st)))"
    unfolding create_alter_mssql_table_def
    by (cases "create_alter_body table_name df pk_column pk_flag text_file_name st"; cases e) simp_all
  have "journal (snd (create_alter_mssql_table table_name df pk_column pk_flag text_file_name st))
        = journal (snd (create_alter_body table_name df pk_column pk_flag text_file_name st))"
    by (simp add: res logger_def)
  with create_alter_body_error_journal [OF err]
  show "\<exists>calls. journal (snd (create_alter_mssql_table table_name df pk_column pk_flag text_file_name st))
                   = journal st @ calls
         \<and> (calls = [HasTable table_name]
            \<or> (\<exists>cols. calls = [HasTable table_name, CreateAll table_name cols])
            \<or> calls = [HasTable table_name, Reflect table_name]
            \<or> (\<exists>t k. map_of (tables st) table_name = Some t
                  \<and> k < length (lj_col_names df (table_names t))
                  \<and> calls = [HasTable table_name, Reflect table_name]
                       @ map (\<lambda>(c, d). AlterAdd table_name c (alter_type d))
                           (take (Suc k) (lj_col_names df (table_names t)))))"
    by simp
next
  assume err: "fst (insert_body table_name df pk_column pk_value fk_column st) = Inl e"
  let ?b = "insert_body table_name df pk_column pk_value fk_column st"
  let ?rd = "ReadSql table_name (if fk_column = [] then pk_column else fk_column)
                   (if fk_column = [] then None else Some (pk_column, pk_value))"
  have res: "insert_data_msssql table_name df pk_column pk_value fk_column st =
      (None, logger (if e = SQLAlchemyError then Error_sqlalchemy_insert table_name
                     else Error_insert table_name) (snd ?b))"
    using err unfolding insert_data_msssql_def by (cases ?b; cases e) simp_all
  note st = insert_body_error_journal [OF err]
  show "fst (insert_data_msssql table_name df pk_column pk_value fk_column st) = None"
    by (simp add: res)
  show "logged (snd (insert_data_msssql table_name df pk_column pk_value fk_column st)) =
          logged st @ [if e = SQLAlchemyError then Error_sqlalchemy_insert table_name
                       else Error_insert table_name]"
    using st by (simp add: res logger_def)
  show "\<exists>calls. journal (snd (insert_data_msssql table_name df pk_column pk_value fk_column st))
                    = journal st @ calls
            \<and> (calls = [?rd] \<or> (\<exists>n. calls = [?rd, ToSql table_name (column_names df) n]))"
    using st by (auto simp: res logger_def)
next
  assume d: "down st"
  then show "fst (create_alter_mssql_table table_name df pk_column pk_flag text_file_name st) = False"
    by (auto simp: create_alter_mssql_table_def create_alter_body_def has_table_def called_def
          logger_def Let_def split: exn.splits)
  from d show "journal (snd (create_alter_mssql_table table_name df pk_column pk_flag text_file_name st))
          = journal st @ [HasTable table_name]"
    by (auto simp: create_alter_mssql_table_def create_alter_body_def has_table_def called_def
          logger_def Let_def split: exn.splits)
  from d show "fst (insert_data_msssql table_name df pk_column pk_value fk_column st) = None"
    by (auto simp: insert_data_msssql_def insert_body_def read_sql_def called_def logger_def Let_def
          split: exn.splits)
  from d show "journal (snd (insert_data_msssql table_name df pk_column pk_value fk_column st))
          = journal st @ [ReadSql table_name (if fk_column = [] then pk_column else fk_column)
                            (if fk_column = [] then None else Some (pk_column, pk_value))]"
    by (auto simp: insert_data_msssql_def insert_body_def read_sql_def called_def logger_def Let_def
          split: exn.splits)
qed

theorem store_error_is_caught_and_not_retried_witness:
  "fst (create_alter_body ''NRG_Tower_SN_42'' batch_case_clash ''Timestamp'' True [] store_T) = Inl DriverError
   \<and> fst (create_alter_mssql_table ''NRG_Tower_SN_42'' batch_case_clash ''Timestamp'' True [] store_T) = False
   \<and> journal (snd (create_alter_mssql_table ''NRG_Tower_SN_42'' batch_case_clash ''Timestamp'' True [] store_T))
       = [HasTable ''NRG_Tower_SN_42'', Reflect ''NRG_Tower_SN_42'',
          AlterAdd ''NRG_Tower_SN_42'' ''M'' FLOAT, AlterAdd ''NRG_Tower_SN_42'' ''m'' FLOAT]
   \<and> fst (insert_body ''NRG_Tower_SN_42'' batch_same_key ''Timestamp'' [] [] store_T) = Inl (raises store_T)
   \<and> fst (insert_data_msssql ''NRG_Tower_SN_42'' batch_same_key ''Timestamp'' [] [] store_T) = None
   \<and> journal (snd (insert_data_msssql ''NRG_Tower_SN_42'' batch_same_key ''Timestamp'' [] [] store_T))
       = [ReadSql ''NRG_Tower_SN_42'' ''Timestamp'' None,
          ToSql ''NRG_Tower_SN_42'' [''Timestamp'', ''Val1''] 2]
   \<and> down (store_T\<lparr>down := True\<rparr>)
   \<and> fst (create_alter_mssql_table ''NRG_Tower_SN_42'' batch_two ''Timestamp'' True [] (store_T\<lparr>down := True\<rparr>))
       = False
   \<and> journal (snd (create_alter_mssql_table ''NRG_Tower_SN_42'' batch_two ''Timestamp'' True []
                      (store_T\<lparr>down := True\<rparr>))) = [HasTable ''NRG_Tower_SN_42'']
   \<and> fst (insert_data_msssql ''NRG_Tower_SN_42'' batch_two ''Timestamp'' [] [] (store_T\<lparr>down := True\<rparr>)) = None
   \<and> journal (snd (insert_data_msssql ''NRG_Tower_SN_42'' batch_two ''Timestamp'' [] []
                      (store_T\<lparr>down := True\<rparr>))) = [ReadSql ''NRG_Tower_SN_42'' ''Timestamp'' None]"
proof -
  have a: "fst (create_alter_body ''NRG_Tower_SN_42'' batch_case_clash ''Timestamp'' True [] store_T)
             = Inl DriverError" by code_simp
  have b: "fst (insert_body ''NRG_Tower_SN_42'' batch_same_key ''Timestamp'' [] [] store_T)
             = Inl (raises store_T)" by code_simp
  have c: "down (store_T\<lparr>down := True\<rparr>)" by simp
  have j: "journal store_T = []" by (simp add: store_T_def)
  have ja: "journal (snd (create_alter_mssql_table ''NRG_Tower_SN_42'' batch_case_clash ''Timestamp'' True []
                            store_T))
       = [HasTable ''NRG_Tower_SN_42'', Reflect ''NRG_Tower_SN_42'',
          AlterAdd ''NRG_Tower_SN_42'' ''M'' FLOAT, AlterAdd ''NRG_Tower_SN_42'' ''m'' FLOAT]"
    by code_simp
  have jb: "journal (snd (insert_data_msssql ''NRG_Tower_SN_42'' batch_same_key ''Timestamp'' [] [] store_T))
       = [ReadSql ''NRG_Tower_SN_42'' ''Timestamp'' None,
          ToSql ''NRG_Tower_SN_42'' [''Timestamp'', ''Val1''] 2]"
    by code_simp
  note th1 = store_error_is_caught_and_not_retried
       [of "''NRG_Tower_SN_42''" batch_case_clash "''Timestamp''" True "[]" store_T DriverError "[]" "[]"]
  note th2 = store_error_is_caught_and_not_retried
       [of "''NRG_Tower_SN_42''" batch_same_key "''Timestamp''" True "[]" store_T "raises store_T" "[]" "[]"]
  note th3 = store_error_is_caught_and_not_retried
       [of "''NRG_Tower_SN_42''" batch_two "''Timestamp''" True "[]" "store_T\<lparr>down := True\<rparr>"
           SQLAlchemyError "[]" "[]"]
  from th1 a have 1: "fst (create_alter_mssql_table ''NRG_Tower_SN_42'' batch_case_clash ''Timestamp'' True []
                             store_T) = False"
    by simp
  from th2 b have 2: "fst (insert_data_msssql ''NRG_Tower_SN_42'' batch_same_key ''Timestamp'' [] [] store_T)
                        = None"
    by blast
  from th3 c have 3:
    "fst (create_alter_mssql_table ''NRG_Tower_SN_42'' batch_two ''Timestamp'' True [] (store_T\<lparr>down := True\<rparr>))
       = False"
    "journal (snd (create_alter_mssql_table ''NRG_Tower_SN_42'' batch_two ''Timestamp'' True []
                      (store_T\<lparr>down := True\<rparr>))) = [HasTable ''NRG_Tower_SN_42'']"
    "fst (insert_data_msssql ''NRG_Tower_SN_42'' batch_two ''Timestamp'' [] [] (store_T\<lparr>down := True\<rparr>)) = None"
    "journal (snd (insert_data_msssql ''NRG_Tower_SN_42'' batch_two ''Timestamp'' [] []
                      (store_T\<lparr>down := True\<rparr>))) = [ReadSql ''NRG_Tower_SN_42'' ''Timestamp'' None]"
    by (simp_all add: j)
  from a b c ja jb 1 2 3 show ?thesis by blast
qed

text \<open>
  The claim as first stated (the error propagates to the caller) fails wherever the store
  raises: on a store that cannot be reached, and on an append the primary key rejects, the
  body of the function raises and the function returns \<open>False\<close> or \<open>None\<close>.
\<close>

theorem store_error_counterexample:
  "fst (create_alter_body ''NRG_Tower_SN_42'' batch_two ''Timestamp'' True [] (store_T\<lparr>down := True\<rparr>))
     = Inl (raises (store_T\<lparr>down := True\<rparr>))
   \<and> fst (create_alter_mssql_table ''NRG_Tower_SN_42'' batch_two ''Timestamp'' True [] (store_T\<lparr>down := True\<rparr>))
     = False
   \<and> fst (insert_body ''NRG_Tower_SN_42'' batch_two ''Timestamp'' [] [] (store_T\<lparr>down := True\<rparr>))
     = Inl (raises (store_T\<lparr>down := True\<rparr>))
   \<and> fst (insert_data_msssql ''NRG_Tower_SN_42'' batch_two ''Timestamp'' [] [] (store_T\<lparr>down := True\<rparr>))
     = None
   \<and> fst (insert_body ''NRG_Tower_SN_42'' batch_same_key ''Timestamp'' [] [] store_T) = Inl (raises store_T)
   \<and> fst (insert_data_msssql ''NRG_Tower_SN_42'' batch_same_key ''Timestamp'' [] [] store_T) = None"
  by code_simp

end
